theory Spec2Isabelle
  imports Complex_Main "HOL-Library.Multiset"
begin

section \<open>Python floats: binary64 arithmetic\<close>

text \<open>
  Every number of \<open>FinancialProfile\<close> and \<open>Transaction\<close> is a Python \<open>float\<close>, an
  IEEE-754 binary64 value. A finite binary64 value is a real number, and each arithmetic
  operation of CPython returns the exact result rounded to the nearest binary64 value,
  ties to the even significand. The model carries the values as \<open>real\<close> and writes the
  rounding out: \<open>float_round\<close> rounds to 53 significant bits, with the exponent bounded
  below as for subnormal numbers.

  The inputs of the model are the finite floats other than negative zero: a real number
  has no sign of zero, and infinities and NaN are not carried. The exponent of
  \<open>float_round\<close> is unbounded above, so where an operation of CPython overflows to an
  infinity the model holds a value beyond \<open>max_float\<close>, the largest binary64 value;
  \<open>float_finite\<close> says that a value is within the binary64 range.
\<close>

definition round_half_even :: "real \<Rightarrow> int" where
  "round_half_even q =
     (let f = \<lfloor>q\<rfloor>; d = q - of_int f
      in if d < 1 / 2 then f else if 1 / 2 < d then f + 1 else if even f then f else f + 1)"

function bit_length :: "nat \<Rightarrow> nat" where
  "bit_length n = (if n = 0 then 0 else Suc (bit_length (n div 2)))"
  by pat_completeness auto
termination
  by (relation "measure id") auto

definition pow2 :: "int \<Rightarrow> real" where
  "pow2 k = (if 0 \<le> k then 2 ^ nat k else 1 / 2 ^ nat (- k))"

text \<open>For \<open>q > 0\<close>, \<open>ilog2 q\<close> is the exponent \<open>e\<close> with \<open>2^e \<le> q < 2^(e+1)\<close>.\<close>

definition ilog2 :: "real \<Rightarrow> int" where
  "ilog2 q =
     (if 1 \<le> q then int (bit_length (nat \<lfloor>q\<rfloor>)) - 1
      else (let b = int (bit_length (nat \<lfloor>1 / q\<rfloor>))
            in if q = pow2 (1 - b) then 1 - b else - b))"

definition float_round :: "real \<Rightarrow> real" where
  "float_round q =
     (if q = 0 then 0
      else (let u = pow2 (max (ilog2 \<bar>q\<bar> - 52) (- 1074))
            in of_int (round_half_even (q / u)) * u))"

definition max_float :: real where
  "max_float = (2 ^ 53 - 1) * 2 ^ 971"

definition float_finite :: "real \<Rightarrow> bool" where
  "float_finite x = (\<bar>x\<bar> \<le> max_float)"

definition fadd :: "real \<Rightarrow> real \<Rightarrow> real" where
  "fadd a b = float_round (a + b)"

definition fsub :: "real \<Rightarrow> real \<Rightarrow> real" where
  "fsub a b = float_round (a - b)"

definition fmul :: "real \<Rightarrow> real \<Rightarrow> real" where
  "fmul a b = float_round (a * b)"

definition fdiv :: "real \<Rightarrow> real \<Rightarrow> real" where
  "fdiv a b = float_round (a / b)"

text \<open>The float literals \<open>0.1\<close> and \<open>1.1\<close> of the source are the nearest binary64 values.\<close>

definition lit_0_1 :: real where
  "lit_0_1 = float_round (1 / 10)"

definition lit_1_1 :: real where
  "lit_1_1 = float_round (11 / 10)"

text \<open>
  \<open>round(x, n)\<close> on a float: the exact value is rounded to \<open>n\<close> decimals, ties to even,
  and the decimal is converted back to the nearest float.
\<close>

definition py_round :: "nat \<Rightarrow> real \<Rightarrow> real" where
  "py_round n x = float_round (of_int (round_half_even (x * 10 ^ n)) / 10 ^ n)"

text \<open>\<open>int(x)\<close> truncates towards zero.\<close>

definition py_int :: "real \<Rightarrow> int" where
  "py_int x = (if 0 \<le> x then \<lfloor>x\<rfloor> else \<lceil>x\<rceil>)"

text \<open>\<open>max(0, x)\<close> keeps its first argument unless the second is strictly greater.\<close>

definition py_max0 :: "real \<Rightarrow> real" where
  "py_max0 x = (if 0 < x then x else 0)"

section \<open>Formatting\<close>

definition digit_char :: "nat \<Rightarrow> char" where
  "digit_char d = ''0123456789'' ! d"

function str_nat :: "nat \<Rightarrow> string" where
  "str_nat n = (if n < 10 then [digit_char n] else str_nat (n div 10) @ [digit_char (n mod 10)])"
  by pat_completeness auto
termination
  by (relation "measure id") auto

definition str_int :: "int \<Rightarrow> string" where
  "str_int i = (if i < 0 then CHR ''-'' # str_nat (nat (- i)) else str_nat (nat i))"

definition zero_pad :: "nat \<Rightarrow> string \<Rightarrow> string" where
  "zero_pad n s = replicate (n - length s) CHR ''0'' @ s"

text \<open>
  A finite value in fixed notation with \<open>n\<close> decimals: the exact value rounded to
  \<open>n\<close> decimals, ties to even, with a minus sign for a negative value.
\<close>

definition fmt_decimal :: "nat \<Rightarrow> real \<Rightarrow> string" where
  "fmt_decimal n x =
     (let m = nat (round_half_even (\<bar>x\<bar> * 10 ^ n))
      in (if x < 0 then ''-'' else [])
         @ str_nat (m div 10 ^ n)
         @ (if n = 0 then [] else CHR ''.'' # zero_pad n (str_nat (m mod 10 ^ n))))"

text \<open>
  The format specification \<open>:.nf\<close>. A value beyond the binary64 range stands for the
  infinity that CPython holds after the overflow, which prints as \<open>inf\<close> or
  \<open>-inf\<close>; every other value prints in fixed notation. Negative zero, which CPython
  prints with a minus sign, is not a value of the model.
\<close>

definition fmt_fixed :: "nat \<Rightarrow> real \<Rightarrow> string" where
  "fmt_fixed n x =
     (if max_float < x then ''inf''
      else if x < - max_float then ''-inf''
      else fmt_decimal n x)"

section \<open>Data model (schemas.py)\<close>

record FinancialProfile =
  email :: string
  monthly_income :: real
  monthly_expenses :: real
  savings :: real
  dependents :: int
  risk_tolerance :: string
  insurance_health :: bool
  insurance_renters :: bool
  insurance_auto :: bool
  insurance_life :: bool
  budgets :: "(string \<times> real) list option"

record Transaction =
  date :: "string option"
  description :: string
  merchant :: "string option"
  category :: "string option"
  amount :: real
  txn_type :: "string option"

datatype json = JInt int | JNum real | JStr string

record Alert =
  user_email :: string
  alert_type :: string
  severity :: string
  message :: string
  data :: "(string \<times> json) list"

record AnalysisResult =
  score :: int
  summary :: string
  alerts :: "Alert list"
  stats :: "(string \<times> real) list"

section \<open>Dictionaries in insertion order\<close>

fun dict_get :: "(string \<times> real) list \<Rightarrow> string \<Rightarrow> real \<Rightarrow> real" where
  "dict_get [] k d = d"
| "dict_get ((k', v) # kvs) k d = (if k' = k then v else dict_get kvs k d)"

fun dict_set :: "(string \<times> real) list \<Rightarrow> string \<Rightarrow> real \<Rightarrow> (string \<times> real) list" where
  "dict_set [] k v = [(k, v)]"
| "dict_set ((k', v') # kvs) k v =
     (if k' = k then (k', v) # kvs else (k', v') # dict_set kvs k v)"

section \<open>analyze\_financial\_protection (main.py)\<close>

subsection \<open>Basic stats\<close>

definition monthly_net :: "FinancialProfile \<Rightarrow> real" where
  "monthly_net p = fsub (monthly_income p) (monthly_expenses p)"

definition burn_rate_months :: "FinancialProfile \<Rightarrow> real" where
  "burn_rate_months p =
     (if monthly_expenses p > 0 then fdiv (savings p) (monthly_expenses p) else 12)"

subsection \<open>Category spending\<close>

text \<open>
  The loop over the transactions, with the pair \<open>(category_totals, total_debits)\<close> as
  its state. The addition is a parameter: the source adds floats, which is \<open>fadd\<close>.
\<close>

fun aggregate_step ::
  "(real \<Rightarrow> real \<Rightarrow> real) \<Rightarrow> Transaction \<Rightarrow> (string \<times> real) list \<times> real
     \<Rightarrow> (string \<times> real) list \<times> real" where
  "aggregate_step add t (cats, td) =
     (if amount t > 0 then
        (case category t of
           None \<Rightarrow> (cats, add td (amount t))
         | Some c \<Rightarrow>
             if c \<noteq> [] then (dict_set cats c (add (dict_get cats c 0) (amount t)),
                              add td (amount t))
             else (cats, add td (amount t)))
      else (cats, td))"

definition aggregate_with ::
  "(real \<Rightarrow> real \<Rightarrow> real) \<Rightarrow> Transaction list \<Rightarrow> (string \<times> real) list \<times> real" where
  "aggregate_with add txs = fold (aggregate_step add) txs ([], 0)"

definition category_totals :: "Transaction list \<Rightarrow> (string \<times> real) list" where
  "category_totals txs = fst (aggregate_with fadd txs)"

definition total_debits :: "Transaction list \<Rightarrow> real" where
  "total_debits txs = snd (aggregate_with fadd txs)"

text \<open>\<open>sum(d.values())\<close>: the values added from the left, in insertion order.\<close>

definition sum_values :: "(real \<Rightarrow> real \<Rightarrow> real) \<Rightarrow> (string \<times> real) list \<Rightarrow> real" where
  "sum_values add d = foldl add 0 (map snd d)"

subsection \<open>Alerts\<close>

definition target_months :: "FinancialProfile \<Rightarrow> int" where
  "target_months p =
     (if risk_tolerance p = ''high'' then 3
      else if risk_tolerance p = ''medium'' then 6 else 9)"

definition emergency_alerts :: "FinancialProfile \<Rightarrow> Alert list" where
  "emergency_alerts p =
     (let tm = target_months p; br = burn_rate_months p
      in if br < of_int tm then
           (let shortfall =
                  py_max0 (fsub (fmul (of_int tm) (monthly_expenses p)) (savings p))
            in [\<lparr>user_email = email p,
                 alert_type = ''emergency_fund_shortfall'',
                 severity = (if br < fdiv (of_int tm) 2 then ''high'' else ''medium''),
                 message = ''Emergency fund covers '' @ fmt_fixed 1 br
                           @ '' months; target is '' @ str_int tm @ '' months.'',
                 data = [(''shortfall'', JNum (py_round 2 shortfall)),
                         (''target_months'', JInt tm)]\<rparr>])
         else [])"

definition insurance_alerts :: "FinancialProfile \<Rightarrow> real \<Rightarrow> Alert list" where
  "insurance_alerts p td =
     (if \<not> insurance_health p then
        [\<lparr>user_email = email p, alert_type = ''missing_health_insurance'',
          severity = ''high'', message = ''Health insurance not detected.'', data = []\<rparr>]
      else [])
     @ (if \<not> insurance_renters p then
          [\<lparr>user_email = email p, alert_type = ''missing_renters_insurance'',
            severity = ''medium'',
            message = ''Renter'' @ [CHR 0x27] @ ''s/home insurance not detected.'',
            data = []\<rparr>]
        else [])
     @ (if \<not> insurance_auto p \<and> td > 0 then
          [\<lparr>user_email = email p, alert_type = ''missing_auto_insurance'',
            severity = ''medium'', message = ''Auto insurance not detected.'', data = []\<rparr>]
        else [])
     @ (if dependents p > 0 \<and> \<not> insurance_life p then
          [\<lparr>user_email = email p, alert_type = ''missing_life_insurance'',
            severity = ''high'',
            message = ''Life insurance recommended when you have dependents.'',
            data = [(''dependents'', JInt (dependents p))]\<rparr>]
        else [])"

definition overspending_alerts :: "FinancialProfile \<Rightarrow> real \<Rightarrow> Alert list" where
  "overspending_alerts p td =
     (if monthly_income p > 0 \<and> td > fmul (monthly_income p) lit_1_1 then
        [\<lparr>user_email = email p, alert_type = ''overspending'', severity = ''medium'',
          message = ''Recent spending exceeds monthly income by more than 10%.'',
          data = [(''income'', JNum (monthly_income p)),
                  (''spend'', JNum (py_round 2 td))]\<rparr>]
      else [])"

definition budget_alert ::
  "FinancialProfile \<Rightarrow> (string \<times> real) list \<Rightarrow> string \<times> real \<Rightarrow> Alert list" where
  "budget_alert p cats b =
     (let cat = fst b; limit = snd b; spent = dict_get cats cat 0
      in if limit \<noteq> 0 \<and> spent > limit then
           [\<lparr>user_email = email p, alert_type = ''budget_exceeded'',
             severity = (if spent \<le> fmul limit lit_1_1 then ''low'' else ''medium''),
             message = ''Spending in '' @ cat @ '' is '' @ fmt_fixed 2 spent
                       @ '' which exceeds your budget '' @ fmt_fixed 2 limit @ ''.'',
             data = [(''category'', JStr cat), (''spent'', JNum (py_round 2 spent)),
                     (''limit'', JNum limit)]\<rparr>]
         else [])"

definition budget_alerts :: "FinancialProfile \<Rightarrow> (string \<times> real) list \<Rightarrow> Alert list" where
  "budget_alerts p cats =
     (case budgets p of
        None \<Rightarrow> []
      | Some bs \<Rightarrow> concat (map (budget_alert p cats) bs))"

definition all_alerts :: "FinancialProfile \<Rightarrow> Transaction list \<Rightarrow> Alert list" where
  "all_alerts p txs =
     emergency_alerts p
     @ insurance_alerts p (total_debits txs)
     @ overspending_alerts p (total_debits txs)
     @ budget_alerts p (category_totals txs)"

subsection \<open>Score\<close>

definition emergency_deduction :: "FinancialProfile \<Rightarrow> int" where
  "emergency_deduction p =
     py_int (fmul (py_max0 (fdiv (fsub (of_int (target_months p)) (burn_rate_months p))
                               (of_int (target_months p)))) 40)"

definition missing_insurance :: "FinancialProfile \<Rightarrow> int" where
  "missing_insurance p =
     sum_list [if \<not> insurance_health p then 1 else 0,
               if \<not> insurance_renters p then 1 else 0,
               if \<not> insurance_auto p then 1 else 0,
               if dependents p > 0 \<and> \<not> insurance_life p then 1 else 0]"

definition cash_flow_deduction :: "FinancialProfile \<Rightarrow> int" where
  "cash_flow_deduction p =
     (if monthly_net p < 0 then 20
      else if monthly_net p < fmul (monthly_expenses p) lit_0_1 then 10 else 0)"

text \<open>The score before the final clamp.\<close>

definition raw_score :: "FinancialProfile \<Rightarrow> int" where
  "raw_score p =
     100 - emergency_deduction p - missing_insurance p * 10 - cash_flow_deduction p"

definition final_score :: "FinancialProfile \<Rightarrow> int" where
  "final_score p = max 0 (min 100 (raw_score p))"

subsection \<open>Result\<close>

definition make_stats :: "FinancialProfile \<Rightarrow> Transaction list \<Rightarrow> (string \<times> real) list" where
  "make_stats p txs =
     [(''monthly_income'', monthly_income p),
      (''monthly_expenses'', monthly_expenses p),
      (''monthly_net'', py_round 2 (monthly_net p)),
      (''savings'', savings p),
      (''burn_rate_months'', py_round 2 (burn_rate_months p)),
      (''total_spend'', py_round 2 (total_debits txs))]"

definition make_summary :: "FinancialProfile \<Rightarrow> Transaction list \<Rightarrow> string" where
  "make_summary p txs =
     ''Protection score '' @ str_int (final_score p) @ ''/100. Net cash flow ''
     @ fmt_fixed 2 (monthly_net p) @ '' per month. ''
     @ ''Emergency fund covers '' @ fmt_fixed 1 (burn_rate_months p)
     @ '' months (target '' @ str_int (target_months p) @ ''). ''
     @ ''Generated '' @ str_nat (length (all_alerts p txs)) @ '' alerts.''"

definition analyze_financial_protection ::
  "FinancialProfile \<Rightarrow> Transaction list \<Rightarrow> AnalysisResult" where
  "analyze_financial_protection p txs =
     \<lparr>score = final_score p,
      summary = make_summary p txs,
      alerts = all_alerts p txs,
      stats = make_stats p txs\<rparr>"

section \<open>Auxiliary definitions for the statements\<close>

text \<open>The test \<open>if t.category\<close>: the category is present and not the empty string.\<close>

definition has_category :: "Transaction \<Rightarrow> bool" where
  "has_category t = (case category t of None \<Rightarrow> False | Some c \<Rightarrow> c \<noteq> [])"

text \<open>
  The loop body seen on the dictionary as a finite map, forgetting the insertion order
  (two Python dictionaries are equal when they hold the same items).
\<close>

definition map_step ::
  "(real \<Rightarrow> real \<Rightarrow> real) \<Rightarrow> Transaction \<Rightarrow> (string \<rightharpoonup> real) \<times> real
     \<Rightarrow> (string \<rightharpoonup> real) \<times> real" where
  "map_step add t s =
     (if amount t > 0 then
        (case category t of
           None \<Rightarrow> (fst s, add (snd s) (amount t))
         | Some c \<Rightarrow>
             if c \<noteq> [] then
               ((fst s)(c \<mapsto> add (case fst s c of None \<Rightarrow> 0 | Some v \<Rightarrow> v) (amount t)),
                add (snd s) (amount t))
             else (fst s, add (snd s) (amount t)))
      else s)"

text \<open>
  The summary as the specification words it: as \<open>make_summary\<close>, with the net cash
  flow printed with one decimal.
\<close>

definition summary_one_decimal :: "FinancialProfile \<Rightarrow> Transaction list \<Rightarrow> string" where
  "summary_one_decimal p txs =
     ''Protection score '' @ str_int (final_score p) @ ''/100. Net cash flow ''
     @ fmt_fixed 1 (monthly_net p) @ '' per month. ''
     @ ''Emergency fund covers '' @ fmt_fixed 1 (burn_rate_months p)
     @ '' months (target '' @ str_int (target_months p) @ ''). ''
     @ ''Generated '' @ str_nat (length (all_alerts p txs)) @ '' alerts.''"

section \<open>Example inputs\<close>

text \<open>A profile with the required fields given and every other field at its default.\<close>

definition profile_defaults :: "string \<Rightarrow> real \<Rightarrow> real \<Rightarrow> FinancialProfile" where
  "profile_defaults e inc ex =
     \<lparr>email = e, monthly_income = inc, monthly_expenses = ex, savings = 0,
      dependents = 0, risk_tolerance = ''medium'', insurance_health = False,
      insurance_renters = False, insurance_auto = False, insurance_life = False,
      budgets = None\<rparr>"

definition scenario_A :: "string \<Rightarrow> FinancialProfile" where
  "scenario_A e =
     \<lparr>email = e, monthly_income = 5000, monthly_expenses = 4000, savings = 24000,
      dependents = 0, risk_tolerance = ''medium'', insurance_health = False,
      insurance_renters = False, insurance_auto = False, insurance_life = False,
      budgets = None\<rparr>"

definition scenario_B :: "string \<Rightarrow> FinancialProfile" where
  "scenario_B e =
     (profile_defaults e 0 1000)
       \<lparr>insurance_health := True, insurance_renters := True,
        insurance_auto := True, insurance_life := True\<rparr>"

definition mk_txn :: "string \<Rightarrow> real \<Rightarrow> Transaction" where
  "mk_txn c a =
     \<lparr>date = None, description = ''entry'', merchant = None, category = Some c,
      amount = a, txn_type = None\<rparr>"

definition rounding_txs :: "Transaction list" where
  "rounding_txs = [mk_txn ''rent'' 9007199254740992, mk_txn ''food'' 1, mk_txn ''food'' 1]"

definition big_first_txs :: "Transaction list" where
  "big_first_txs = [mk_txn ''rent'' 9007199254740992, mk_txn ''rent'' 1, mk_txn ''rent'' 1]"

definition big_last_txs :: "Transaction list" where
  "big_last_txs = [mk_txn ''rent'' 1, mk_txn ''rent'' 1, mk_txn ''rent'' 9007199254740992]"

definition mixed_txs :: "Transaction list" where
  "mixed_txs = [mk_txn ''rent'' 10, mk_txn ''salary'' (- 5), mk_txn ''food'' (5 / 2),
                mk_txn ''rent'' 4]"

definition mixed_txs_permuted :: "Transaction list" where
  "mixed_txs_permuted = [mk_txn ''food'' (5 / 2), mk_txn ''rent'' 4, mk_txn ''rent'' 10,
                         mk_txn ''salary'' (- 5)]"

definition odd_cents_profile :: FinancialProfile where
  "odd_cents_profile = profile_defaults ''user@example.com'' (16001 / 16) 0"

definition unknown_risk_profile :: FinancialProfile where
  "unknown_risk_profile = (scenario_A ''user@example.com'')\<lparr>risk_tolerance := ''aggressive''\<rparr>"

definition inflow_only_txs :: "Transaction list" where
  "inflow_only_txs = [mk_txn ''salary'' (- 5000), mk_txn ''refund'' 0]"

definition worst_case_profile :: FinancialProfile where
  "worst_case_profile =
     (profile_defaults ''user@example.com'' 0 1000)\<lparr>dependents := 1\<rparr>"

definition overdrawn_profile :: FinancialProfile where
  "overdrawn_profile =
     (profile_defaults ''user@example.com'' 0 1000)\<lparr>dependents := 1, savings := - 6000\<rparr>"

definition overflow_profile :: FinancialProfile where
  "overflow_profile =
     (profile_defaults ''user@example.com'' 0 (1 / 2 ^ 30))\<lparr>savings := 2 ^ 1000\<rparr>"

section \<open>Evaluation of the arithmetic on numerals\<close>

text \<open>
  The recursive equations of \<open>bit_length\<close> and \<open>str_nat\<close> rewrite a numeral argument
  down to the result, and do not terminate on a variable: they are used for evaluation
  only.
\<close>

declare bit_length.simps [simp del]

declare str_nat.simps [simp del]

lemmas float_eval = float_round_def ilog2_def pow2_def round_half_even_def Let_def
  bit_length.simps fadd_def fsub_def fmul_def fdiv_def lit_0_1_def lit_1_1_def
  py_round_def py_int_def py_max0_def

lemmas fmt_eval = fmt_fixed_def fmt_decimal_def max_float_def zero_pad_def digit_char_def
  str_int_def str_nat.simps

section \<open>The rounding is to the nearest value of 53 significant bits\<close>

lemma bit_length_bounds:
  "0 < n \<Longrightarrow> 2 ^ (bit_length n - 1) \<le> n \<and> n < 2 ^ bit_length n"
proof (induction n rule: bit_length.induct)
  case (1 n)
  from "1.prems" have n0: "n \<noteq> 0" by simp
  have bl: "bit_length n = Suc (bit_length (n div 2))"
    using n0 by (subst bit_length.simps) simp
  show ?case
  proof (cases "n div 2 = 0")
    case True
    with "1.prems" have "n = 1" by (simp add: div_eq_0_iff)
    moreover have "bit_length (0::nat) = 0" by (subst bit_length.simps) simp
    ultimately show ?thesis using bl by simp
  next
    case False
    then have pos: "0 < n div 2" by simp
    from "1.IH" [OF n0 pos]
    have lo: "2 ^ (bit_length (n div 2) - 1) \<le> n div 2"
      and hi: "n div 2 < 2 ^ bit_length (n div 2)" by simp_all
    have b1: "0 < bit_length (n div 2)"
      using pos by (subst bit_length.simps) simp
    then obtain k where k: "bit_length (n div 2) = Suc k"
      by (cases "bit_length (n div 2)") simp_all
    from lo k have "2 * 2 ^ k \<le> 2 * (n div 2)" by simp
    also have "\<dots> \<le> n" by simp
    finally have A: "2 ^ (bit_length n - 1) \<le> n" by (simp add: bl k)
    from hi have "n div 2 + 1 \<le> 2 ^ bit_length (n div 2)" by simp
    then have "2 * (n div 2) + 2 \<le> 2 * 2 ^ bit_length (n div 2)" by simp
    moreover have "n < 2 * (n div 2) + 2" by presburger
    ultimately have B: "n < 2 ^ bit_length n" by (simp add: bl)
    from A B show ?thesis ..
  qed
qed

lemma pow2_pos: "0 < pow2 k"
  by (simp add: pow2_def)

lemma pow2_Suc: "pow2 (k + 1) = 2 * pow2 k"
proof (cases "0 \<le> k")
  case True
  then show ?thesis by (simp add: pow2_def nat_add_distrib)
next
  case False
  then have "nat (- k) = Suc (nat (- (k + 1)))" by simp
  then show ?thesis using False by (simp add: pow2_def)
qed

lemma pow_le_real: "2 ^ k \<le> (m::nat) \<Longrightarrow> (2::real) ^ k \<le> real m"
proof -
  assume "2 ^ k \<le> m"
  then have "real (2 ^ k) \<le> real m" by (simp only: of_nat_le_iff)
  then show ?thesis by simp
qed

lemma less_pow_real: "(m::nat) < 2 ^ k \<Longrightarrow> real m + 1 \<le> 2 ^ k"
proof -
  assume "m < 2 ^ k"
  then have "Suc m \<le> 2 ^ k" by simp
  then have "real (Suc m) \<le> real (2 ^ k)" by (simp only: of_nat_le_iff)
  then show ?thesis by simp
qed

text \<open>\<open>ilog2\<close> is the binary exponent of a positive number.\<close>

lemma ilog2_bounds:
  assumes "0 < q"
  shows "pow2 (ilog2 q) \<le> q \<and> q < pow2 (ilog2 q + 1)"
proof (cases "1 \<le> q")
  case True
  define m where "m = nat \<lfloor>q\<rfloor>"
  have m1: "0 < m" using True by (simp add: m_def)
  have mq: "real m \<le> q" "q < real m + 1"
    using True by (simp_all add: m_def)
  from bit_length_bounds [OF m1]
  have lo: "2 ^ (bit_length m - 1) \<le> m" and hi: "m < 2 ^ bit_length m" by simp_all
  have bpos: "0 < bit_length m"
    using m1 by (subst bit_length.simps) simp
  have e: "ilog2 q = int (bit_length m) - 1"
    using True by (simp add: ilog2_def m_def)
  have p1: "pow2 (ilog2 q) = 2 ^ (bit_length m - 1)"
    using bpos by (simp add: e pow2_def nat_diff_distrib')
  have p2: "pow2 (ilog2 q + 1) = 2 ^ bit_length m"
    by (simp add: e pow2_def)
  have "(2::real) ^ (bit_length m - 1) \<le> real m"
    using lo by (rule pow_le_real)
  moreover have "real m + 1 \<le> 2 ^ bit_length m"
    using hi by (rule less_pow_real)
  ultimately show ?thesis using mq unfolding p1 p2 by linarith
next
  case False
  define m where "m = nat \<lfloor>1 / q\<rfloor>"
  define b where "b = bit_length m"
  have q1: "1 < 1 / q" using False assms by simp
  have m1: "0 < m" using q1 by (simp add: m_def)
  have mq: "real m \<le> 1 / q" "1 / q < real m + 1"
    using q1 by (simp_all add: m_def) linarith+
  from bit_length_bounds [OF m1]
  have lo: "2 ^ (b - 1) \<le> m" and hi: "m < 2 ^ b" by (simp_all add: b_def)
  have bpos: "0 < b"
    unfolding b_def using m1 by (subst bit_length.simps) simp
  have rlo: "(2::real) ^ (b - 1) \<le> 1 / q"
    using pow_le_real [OF lo] mq(1) by linarith
  have "real m + 1 \<le> 2 ^ b"
    using hi by (rule less_pow_real)
  then have rhi: "1 / q < (2::real) ^ b" using mq(2) by linarith
  have pa: "pow2 (1 - int b) = 1 / 2 ^ (b - 1)"
    using bpos by (cases b) (simp_all add: pow2_def)
  have pb: "pow2 (- int b) = 1 / 2 ^ b"
    using bpos by (simp add: pow2_def)
  have qle: "q \<le> 1 / 2 ^ (b - 1)"
    using rlo assms by (simp add: field_simps)
  have qgt: "1 / 2 ^ b < q"
    using rhi assms by (simp add: field_simps)
  show ?thesis
  proof (cases "q = pow2 (1 - int b)")
    case True
    then have e: "ilog2 q = 1 - int b"
      using False by (simp add: ilog2_def Let_def m_def b_def)
    have "pow2 (ilog2 q + 1) = 2 * q"
      unfolding pow2_Suc e using True by simp
    then show ?thesis using assms True e by simp
  next
    case neq: False
    then have e: "ilog2 q = - int b"
      using False by (simp add: ilog2_def Let_def m_def b_def)
    have "pow2 (ilog2 q + 1) = pow2 (1 - int b)" by (simp add: e)
    then show ?thesis using qle qgt neq by (simp add: e pa pb)
  qed
qed

lemma round_half_even_error: "\<bar>of_int (round_half_even q) - q\<bar> \<le> 1 / 2"
  unfolding round_half_even_def Let_def by (auto; linarith)

text \<open>
  \<open>float_round q\<close> is a multiple of the unit in the last place \<open>u\<close> of \<open>q\<close>, at
  most half a unit away from \<open>q\<close>.
\<close>

lemma float_round_nearest:
  assumes "q \<noteq> 0" and "u = pow2 (max (ilog2 \<bar>q\<bar> - 52) (- 1074))"
  shows "float_round q = of_int (round_half_even (q / u)) * u"
    and "\<bar>float_round q - q\<bar> \<le> u / 2"
proof -
  have up: "0 < u" by (simp add: assms(2) pow2_pos)
  show eq: "float_round q = of_int (round_half_even (q / u)) * u"
    using assms by (simp add: float_round_def Let_def)
  define n where "n = round_half_even (q / u)"
  have "float_round q - q = (of_int n - q / u) * u"
    using up by (simp add: eq n_def field_simps)
  then have "\<bar>float_round q - q\<bar> = \<bar>of_int n - q / u\<bar> * \<bar>u\<bar>"
    by (simp only: abs_mult)
  then have "\<bar>float_round q - q\<bar> = \<bar>of_int (round_half_even (q / u)) - q / u\<bar> * u"
    using up by (simp add: n_def)
  also have "\<dots> \<le> (1 / 2) * u"
    using up round_half_even_error [of "q / u"] by (intro mult_right_mono) simp_all
  finally show "\<bar>float_round q - q\<bar> \<le> u / 2" by simp
qed

text \<open>
  The literals and the sums below are the values CPython computes: \<open>0.1\<close> and
  \<open>1.1\<close> as \<open>float.as_integer_ratio\<close> gives them, and the sums
  \<open>0.1 + 0.2 + 0.3 = 0.6000000000000001\<close> and \<open>0.3 + 0.2 + 0.1 = 0.6\<close>, which
  differ: float addition is not associative.
\<close>

lemma float_literals:
  "lit_0_1 = 3602879701896397 / 36028797018963968"
  "lit_1_1 = 2476979795053773 / 2251799813685248"
  by (simp_all add: float_eval)

lemma decimal_amounts_order_example:
  "fadd (fadd (fadd 0 (3602879701896397 / 36028797018963968))
              (3602879701896397 / 18014398509481984))
        (5404319552844595 / 18014398509481984)
     = 1351079888211149 / 2251799813685248"
  "fadd (fadd (fadd 0 (5404319552844595 / 18014398509481984))
              (3602879701896397 / 18014398509481984))
        (3602879701896397 / 36028797018963968)
     = 5404319552844595 / 9007199254740992"
  by (simp_all add: float_eval)

section \<open>Scenario A\<close>

lemma A_burn: "burn_rate_months (scenario_A e) = 6"
  by (simp add: burn_rate_months_def scenario_A_def float_eval)

lemma A_net: "monthly_net (scenario_A e) = 1000"
  by (simp add: monthly_net_def scenario_A_def float_eval)

lemma A_target: "target_months (scenario_A e) = 6"
  by (simp add: target_months_def scenario_A_def)

lemma A_emergency_deduction: "emergency_deduction (scenario_A e) = 0"
  by (simp add: emergency_deduction_def A_burn A_target float_eval)

lemma A_missing_insurance: "missing_insurance (scenario_A e) = 3"
  by (simp add: missing_insurance_def scenario_A_def)

lemma A_cash_flow: "cash_flow_deduction (scenario_A e) = 0"
  by (simp add: cash_flow_deduction_def A_net) (simp add: scenario_A_def float_eval)

lemma A_score: "final_score (scenario_A e) = 70"
  by (simp add: final_score_def raw_score_def A_emergency_deduction A_missing_insurance
      A_cash_flow)

lemma total_debits_Nil: "total_debits [] = 0"
  by (simp add: total_debits_def aggregate_with_def)

lemma category_totals_Nil: "category_totals [] = []"
  by (simp add: category_totals_def aggregate_with_def)

lemma A_alert_types:
  "map alert_type (all_alerts (scenario_A e) []) =
     [''missing_health_insurance'', ''missing_renters_insurance'']"
  by (simp add: all_alerts_def emergency_alerts_def A_burn A_target insurance_alerts_def
      overspending_alerts_def budget_alerts_def total_debits_Nil category_totals_Nil)
    (simp add: scenario_A_def float_eval)

lemma A_alert_count: "length (all_alerts (scenario_A e) []) = 2"
  using arg_cong [OF A_alert_types, of length] by simp

lemma A_summary:
  "make_summary (scenario_A e) [] =
     ''Protection score 70/100. Net cash flow 1000.00 per month. Emergency fund covers 6.0 months (target 6). Generated 2 alerts.''"
  by (simp add: make_summary_def A_score A_net A_burn A_target A_alert_count fmt_eval
      round_half_even_def Let_def)

lemma A_summary_one_decimal:
  "summary_one_decimal (scenario_A e) [] =
     ''Protection score 70/100. Net cash flow 1000.0 per month. Emergency fund covers 6.0 months (target 6). Generated 2 alerts.''"
  by (simp add: summary_one_decimal_def A_score A_net A_burn A_target A_alert_count fmt_eval
      round_half_even_def Let_def)

section \<open>Scenario B\<close>

lemma B_burn: "burn_rate_months (scenario_B e) = 0"
  by (simp add: burn_rate_months_def scenario_B_def profile_defaults_def float_eval)

lemma B_net: "monthly_net (scenario_B e) = - 1000"
  by (simp add: monthly_net_def scenario_B_def profile_defaults_def float_eval)

lemma B_target: "target_months (scenario_B e) = 6"
  by (simp add: target_months_def scenario_B_def profile_defaults_def)

lemma B_emergency_deduction: "emergency_deduction (scenario_B e) = 40"
  by (simp add: emergency_deduction_def B_burn B_target float_eval)

lemma B_missing_insurance: "missing_insurance (scenario_B e) = 0"
  by (simp add: missing_insurance_def scenario_B_def profile_defaults_def)

lemma B_cash_flow: "cash_flow_deduction (scenario_B e) = 20"
  by (simp add: cash_flow_deduction_def B_net)

lemma B_score: "final_score (scenario_B e) = 40"
  by (simp add: final_score_def raw_score_def B_emergency_deduction B_missing_insurance
      B_cash_flow)

lemma half_of_six: "fdiv 6 2 = 3"
  by (simp add: float_eval)

lemma B_emergency_alert:
  "map (\<lambda>a. (alert_type a, severity a)) (emergency_alerts (scenario_B e)) =
     [(''emergency_fund_shortfall'', ''high'')]"
  by (simp add: emergency_alerts_def B_burn B_target half_of_six Let_def)

lemma B_other_alerts:
  "insurance_alerts (scenario_B e) (total_debits []) = []
   \<and> overspending_alerts (scenario_B e) (total_debits []) = []
   \<and> budget_alerts (scenario_B e) (category_totals []) = []"
  by (simp add: insurance_alerts_def overspending_alerts_def budget_alerts_def
      scenario_B_def profile_defaults_def)

section \<open>Results on the two scenarios\<close>

text \<open>
  Claim C9. For income 0, expenses 1000, savings 0, all four insurance flags set, no
  dependents, the risk tolerance at its default \<open>medium\<close> and no transactions: the
  burn rate is 0, the target is 6 months, the only alert is an emergency-fund shortfall
  of severity high, the emergency-fund deduction is 40, the insurance deduction is 0,
  the net cash flow is -1000 with a cash-flow deduction of 20, and the score is 40.
\<close>

theorem scenario_B_result:
  "burn_rate_months (scenario_B e) = 0
   \<and> target_months (scenario_B e) = 6
   \<and> map (\<lambda>a. (alert_type a, severity a)) (alerts (analyze_financial_protection (scenario_B e) []))
       = [(''emergency_fund_shortfall'', ''high'')]
   \<and> emergency_deduction (scenario_B e) = 40
   \<and> missing_insurance (scenario_B e) * 10 = 0
   \<and> monthly_net (scenario_B e) = - 1000
   \<and> cash_flow_deduction (scenario_B e) = 20
   \<and> score (analyze_financial_protection (scenario_B e) []) = 40"
  by (simp add: B_burn B_target B_emergency_deduction B_missing_insurance B_net B_cash_flow
      analyze_financial_protection_def B_score all_alerts_def B_other_alerts B_emergency_alert)

text \<open>
  Claim C1, as stated, fails: on scenario A the score is not 80.
\<close>

theorem scenario_A_score_not_80:
  "score (analyze_financial_protection (scenario_A ''user@example.com'') []) \<noteq> 80"
  by (simp add: analyze_financial_protection_def A_score)

text \<open>
  Claim C1, amended. For income 5000, expenses 4000, savings 24000, no dependents, risk
  tolerance medium, no insurance flag set, no budgets and no transactions: the burn rate
  is 6 and the target 6, the alerts are exactly the missing health and missing renters
  insurance alerts (no emergency-fund, auto or life alert), three coverages count as
  missing for the score (health, renters and auto), and the score is 70.
\<close>

theorem scenario_A_result:
  "burn_rate_months (scenario_A e) = 6
   \<and> target_months (scenario_A e) = 6
   \<and> map alert_type (alerts (analyze_financial_protection (scenario_A e) []))
       = [''missing_health_insurance'', ''missing_renters_insurance'']
   \<and> missing_insurance (scenario_A e) = 3
   \<and> score (analyze_financial_protection (scenario_A e) []) = 70"
  by (simp add: A_burn A_target analyze_financial_protection_def A_alert_types
      A_missing_insurance A_score)

section \<open>Summary\<close>

text \<open>
  Claim C8, as stated, fails: on scenario A the summary of the result differs from the
  sentence with the net cash flow printed with one decimal.
\<close>

theorem summary_net_not_one_decimal:
  "summary (analyze_financial_protection (scenario_A ''user@example.com'') [])
     = ''Protection score 70/100. Net cash flow 1000.00 per month. Emergency fund covers 6.0 months (target 6). Generated 2 alerts.''
   \<and> summary_one_decimal (scenario_A ''user@example.com'') []
     = ''Protection score 70/100. Net cash flow 1000.0 per month. Emergency fund covers 6.0 months (target 6). Generated 2 alerts.''
   \<and> summary (analyze_financial_protection (scenario_A ''user@example.com'') [])
     \<noteq> summary_one_decimal (scenario_A ''user@example.com'') []"
  by (simp add: analyze_financial_protection_def A_summary A_summary_one_decimal)

lemma fmt_fixed_finite: "float_finite x \<Longrightarrow> fmt_fixed n x = fmt_decimal n x"
  by (auto simp: fmt_fixed_def float_finite_def)

text \<open>
  Claim C8, amended. For every input on which the net cash flow and the burn rate stay
  within the binary64 range, with savings not negative (so that the burn rate cannot
  underflow to negative zero), the summary is the sentence that embeds the score of the
  result, the net cash flow with two decimals, the burn rate with one decimal together
  with the target months, and the number of alerts of the result.
\<close>

theorem summary_format:
  assumes "float_finite (fsub (monthly_income p) (monthly_expenses p))"
    and "float_finite (burn_rate_months p)"
    and "0 \<le> savings p"
  shows "summary (analyze_financial_protection p txs) =
     ''Protection score '' @ str_int (score (analyze_financial_protection p txs))
     @ ''/100. Net cash flow '' @ fmt_decimal 2 (fsub (monthly_income p) (monthly_expenses p))
     @ '' per month. Emergency fund covers '' @ fmt_decimal 1 (burn_rate_months p)
     @ '' months (target '' @ str_int (target_months p) @ ''). Generated ''
     @ str_nat (length (alerts (analyze_financial_protection p txs))) @ '' alerts.''"
  using assms(1,2)
  by (simp add: analyze_financial_protection_def make_summary_def monthly_net_def
      fmt_fixed_finite)

lemma scenario_A_printed:
  "fsub (monthly_income (scenario_A e)) (monthly_expenses (scenario_A e)) = 1000"
  "float_finite 1000"
  "float_finite 6"
  "fmt_decimal 2 1000 = ''1000.00''"
  "fmt_decimal (Suc 0) 6 = ''6.0''"
  "str_int 70 = ''70''"
  "str_int 6 = ''6''"
  "str_nat 2 = ''2''"
proof -
  show "fsub (monthly_income (scenario_A e)) (monthly_expenses (scenario_A e)) = 1000"
    by (simp add: scenario_A_def float_eval)
  show "float_finite 1000" "float_finite 6"
    by (simp_all add: float_finite_def max_float_def)
  show "fmt_decimal 2 1000 = ''1000.00''" "fmt_decimal (Suc 0) 6 = ''6.0''"
    by (simp_all add: fmt_eval round_half_even_def Let_def)
  show "str_int 70 = ''70''" "str_int 6 = ''6''" "str_nat 2 = ''2''"
    by (simp_all add: fmt_eval)
qed

theorem summary_format_witness:
  "float_finite (fsub (monthly_income (scenario_A ''user@example.com''))
                      (monthly_expenses (scenario_A ''user@example.com'')))
   \<and> float_finite (burn_rate_months (scenario_A ''user@example.com''))
   \<and> 0 \<le> savings (scenario_A ''user@example.com'')
   \<and> summary (analyze_financial_protection (scenario_A ''user@example.com'') [])
     = ''Protection score 70/100. Net cash flow 1000.00 per month. Emergency fund covers 6.0 months (target 6). Generated 2 alerts.''"
proof -
  let ?p = "scenario_A ''user@example.com''"
  have h1: "float_finite (fsub (monthly_income ?p) (monthly_expenses ?p))"
    by (simp add: scenario_A_printed)
  have h2: "float_finite (burn_rate_months ?p)"
    by (simp add: A_burn scenario_A_printed)
  have h3: "0 \<le> savings ?p"
    by (simp add: scenario_A_def)
  have sc: "score (analyze_financial_protection ?p []) = 70"
    by (simp add: analyze_financial_protection_def A_score)
  have n: "length (alerts (analyze_financial_protection ?p [])) = 2"
    by (simp add: analyze_financial_protection_def A_alert_count)
  have "summary (analyze_financial_protection ?p [])
     = ''Protection score 70/100. Net cash flow 1000.00 per month. Emergency fund covers 6.0 months (target 6). Generated 2 alerts.''"
    using summary_format [OF h1 h2 h3, of "[]"]
    by (simp add: sc n A_burn A_target scenario_A_printed)
  with h1 h2 h3 show ?thesis
    by (intro conjI)
qed

text \<open>
  Outside this range the summary holds no decimal rendering: a burn rate that overflows
  (savings \<open>2^1000\<close> over expenses \<open>2^-30\<close>) prints as \<open>inf\<close>.
\<close>

lemma overflow_burn_rate:
  "burn_rate_months overflow_profile = 2 ^ 1030"
  by (simp add: burn_rate_months_def overflow_profile_def profile_defaults_def float_eval)

lemma overflowed_burn_rate_prints_inf:
  "\<not> float_finite (burn_rate_months overflow_profile)
   \<and> fmt_fixed 1 (burn_rate_months overflow_profile) = ''inf''"
  by (simp add: overflow_burn_rate float_finite_def fmt_fixed_def max_float_def)

section \<open>Score range\<close>

text \<open>
  Claim C3. For every profile and transaction list the score of the result lies in the
  closed interval from 0 to 100, whatever the deductions sum to before the clamp.
\<close>

theorem score_in_range:
  "0 \<le> score (analyze_financial_protection p txs)
   \<and> score (analyze_financial_protection p txs) \<le> 100"
  by (simp add: analyze_financial_protection_def final_score_def)

text \<open>
  With every input inside the ranges of the schema the deductions reach 100 at most
  (40 + 40 + 20) and the score 0; outside them (negative savings) the raw score falls
  below 0 and the clamp brings it back to 0.
\<close>

lemma worst_case_deductions:
  "emergency_deduction worst_case_profile = 40
   \<and> missing_insurance worst_case_profile * 10 = 40
   \<and> cash_flow_deduction worst_case_profile = 20
   \<and> raw_score worst_case_profile = 0
   \<and> final_score worst_case_profile = 0"
proof -
  have br: "burn_rate_months worst_case_profile = 0"
    by (simp add: burn_rate_months_def worst_case_profile_def profile_defaults_def float_eval)
  have tm: "target_months worst_case_profile = 6"
    by (simp add: target_months_def worst_case_profile_def profile_defaults_def)
  have ed: "emergency_deduction worst_case_profile = 40"
    by (simp add: emergency_deduction_def br tm float_eval)
  have mi: "missing_insurance worst_case_profile = 4"
    by (simp add: missing_insurance_def worst_case_profile_def profile_defaults_def)
  have net: "monthly_net worst_case_profile = - 1000"
    by (simp add: monthly_net_def worst_case_profile_def profile_defaults_def float_eval)
  have cf: "cash_flow_deduction worst_case_profile = 20"
    by (simp add: cash_flow_deduction_def net)
  show ?thesis
    by (simp add: ed mi cf raw_score_def final_score_def)
qed

lemma overdrawn_deductions:
  "emergency_deduction overdrawn_profile = 80
   \<and> raw_score overdrawn_profile = - 40
   \<and> final_score overdrawn_profile = 0"
proof -
  have br: "burn_rate_months overdrawn_profile = - 6"
    by (simp add: burn_rate_months_def overdrawn_profile_def profile_defaults_def float_eval)
  have tm: "target_months overdrawn_profile = 6"
    by (simp add: target_months_def overdrawn_profile_def profile_defaults_def)
  have ed: "emergency_deduction overdrawn_profile = 80"
    by (simp add: emergency_deduction_def br tm float_eval)
  have mi: "missing_insurance overdrawn_profile = 4"
    by (simp add: missing_insurance_def overdrawn_profile_def profile_defaults_def)
  have net: "monthly_net overdrawn_profile = - 1000"
    by (simp add: monthly_net_def overdrawn_profile_def profile_defaults_def float_eval)
  have cf: "cash_flow_deduction overdrawn_profile = 20"
    by (simp add: cash_flow_deduction_def net)
  show ?thesis
    by (simp add: ed mi cf raw_score_def final_score_def)
qed

section \<open>Burn rate\<close>

text \<open>
  Claim C4. With positive monthly expenses the burn rate is the float quotient of
  savings by expenses; with monthly expenses equal to 0 it is exactly 12.
\<close>

theorem burn_rate_months_cases:
  "(monthly_expenses p > 0 \<longrightarrow> burn_rate_months p = fdiv (savings p) (monthly_expenses p))
   \<and> (monthly_expenses p = 0 \<longrightarrow> burn_rate_months p = 12)"
  by (simp add: burn_rate_months_def)

lemma fdiv_24000_4000: "fdiv 24000 4000 = 6"
  by (simp add: float_eval)

theorem burn_rate_months_cases_witness:
  "monthly_expenses (scenario_A ''user@example.com'') > 0
   \<and> burn_rate_months (scenario_A ''user@example.com'') = 6
   \<and> monthly_expenses (profile_defaults ''user@example.com'' 100 0) = 0
   \<and> burn_rate_months (profile_defaults ''user@example.com'' 100 0) = 12"
  using burn_rate_months_cases [of "scenario_A ''user@example.com''"]
    burn_rate_months_cases [of "profile_defaults ''user@example.com'' 100 0"]
  by (simp add: scenario_A_def profile_defaults_def fdiv_24000_4000)

section \<open>Stats\<close>

lemma odd_cents_net:
  "fsub (monthly_income odd_cents_profile) (monthly_expenses odd_cents_profile) = 16001 / 16"
  by (simp add: odd_cents_profile_def profile_defaults_def float_eval)

lemma odd_cents_rounded: "py_round 2 (16001 / 16) = 2199155196947333 / 2199023255552"
  by (simp add: float_eval)

text \<open>
  Claim C2, as stated, fails: for income 1000.0625 and expenses 0 the stored
  \<open>monthly_net\<close> is not the raw difference (it is 1000.06).
\<close>

theorem rounded_monthly_net_example:
  "map_of (stats (analyze_financial_protection odd_cents_profile [])) ''monthly_net''
     \<noteq> Some (fsub (monthly_income odd_cents_profile) (monthly_expenses odd_cents_profile))"
  by (simp add: analyze_financial_protection_def make_stats_def monthly_net_def
      odd_cents_net odd_cents_rounded)

text \<open>
  Claim C2, amended. For every profile and transaction list, the \<open>monthly_net\<close> entry
  of the stats is the float difference of income and expenses rounded to two decimals.
\<close>

theorem stats_monthly_net:
  "map_of (stats (analyze_financial_protection p txs)) ''monthly_net''
     = Some (py_round 2 (fsub (monthly_income p) (monthly_expenses p)))"
  by (simp add: analyze_financial_protection_def make_stats_def monthly_net_def)

section \<open>The aggregation loop\<close>

lemma aggregate_step_not_outflow:
  "\<not> amount t > 0 \<Longrightarrow> aggregate_step add t s = s"
  by (cases s) simp

lemma fold_aggregate_filter:
  "fold (aggregate_step add) (filter (\<lambda>t. amount t > 0) txs) s
     = fold (aggregate_step add) txs s"
  by (induction txs arbitrary: s) (simp_all add: aggregate_step_not_outflow)

lemma fold_aggregate_no_outflow:
  "\<forall>t \<in> set txs. amount t \<le> 0 \<Longrightarrow> fold (aggregate_step add) txs s = s"
  by (induction txs arbitrary: s) (simp_all add: aggregate_step_not_outflow)

lemma foldl_plus_sum_list: "foldl (+) a xs = a + sum_list (xs :: real list)"
  by (induction xs arbitrary: a) simp_all

lemma sum_values_exact: "sum_values (+) d = sum_list (map snd d)"
  by (simp add: sum_values_def foldl_plus_sum_list)

lemma sum_list_dict_set:
  "sum_list (map snd (dict_set d k (dict_get d k 0 + a))) = sum_list (map snd d) + a"
  by (induction d) auto

lemma aggregate_step_exact_balance:
  assumes "amount t > 0 \<longrightarrow> has_category t"
  shows "sum_list (map snd (fst (aggregate_step (+) t s))) - snd (aggregate_step (+) t s)
           = sum_list (map snd (fst s)) - snd s"
  using assms
  by (cases s) (auto simp: has_category_def sum_list_dict_set split: option.splits)

lemma fold_aggregate_exact_balance:
  assumes "\<forall>t \<in> set txs. amount t > 0 \<longrightarrow> has_category t"
  shows "sum_list (map snd (fst (fold (aggregate_step (+)) txs s)))
           - snd (fold (aggregate_step (+)) txs s)
         = sum_list (map snd (fst s)) - snd s"
  using assms
proof (induction txs arbitrary: s)
  case Nil
  then show ?case by simp
next
  case (Cons t txs)
  have "sum_list (map snd (fst (fold (aggregate_step (+)) txs (aggregate_step (+) t s))))
          - snd (fold (aggregate_step (+)) txs (aggregate_step (+) t s))
        = sum_list (map snd (fst (aggregate_step (+) t s))) - snd (aggregate_step (+) t s)"
    using Cons.prems by (intro Cons.IH) simp
  also have "\<dots> = sum_list (map snd (fst s)) - snd s"
    using Cons.prems by (intro aggregate_step_exact_balance) simp
  finally show ?case by simp
qed

text \<open>
  Claim C5, amended. Transactions with an amount of 0 or less contribute nothing: the
  float totals computed by the source are those of the list with these transactions
  removed. When every transaction with a positive amount has a non-empty category, the
  per-category totals sum to \<open>total_debits\<close> provided the additions are exact
  (addition of real numbers in place of the rounding float addition).
\<close>

theorem aggregator_totals:
  "category_totals (filter (\<lambda>t. amount t > 0) txs) = category_totals txs
   \<and> total_debits (filter (\<lambda>t. amount t > 0) txs) = total_debits txs
   \<and> ((\<forall>t \<in> set txs. amount t > 0 \<longrightarrow> has_category t) \<longrightarrow>
        sum_values (+) (fst (aggregate_with (+) txs)) = snd (aggregate_with (+) txs))"
proof (intro conjI impI)
  show "category_totals (filter (\<lambda>t. amount t > 0) txs) = category_totals txs"
    by (simp add: category_totals_def aggregate_with_def fold_aggregate_filter)
  show "total_debits (filter (\<lambda>t. amount t > 0) txs) = total_debits txs"
    by (simp add: total_debits_def aggregate_with_def fold_aggregate_filter)
next
  assume "\<forall>t \<in> set txs. amount t > 0 \<longrightarrow> has_category t"
  from fold_aggregate_exact_balance [OF this, of "([], 0)"]
  show "sum_values (+) (fst (aggregate_with (+) txs)) = snd (aggregate_with (+) txs)"
    by (simp add: sum_values_exact aggregate_with_def)
qed

section \<open>Order of the transactions\<close>

lemma map_of_dict_set: "map_of (dict_set d k v) = (map_of d)(k \<mapsto> v)"
  by (induction d) (auto simp: fun_eq_iff)

lemma dict_get_map_of: "dict_get d k x = (case map_of d k of None \<Rightarrow> x | Some v \<Rightarrow> v)"
  by (induction d) auto

lemma aggregate_step_map_step:
  "(map_of (fst (aggregate_step add t s)), snd (aggregate_step add t s))
     = map_step add t (map_of (fst s), snd s)"
  by (cases s) (simp add: map_step_def map_of_dict_set dict_get_map_of split: option.splits)

lemma fold_aggregate_map_step:
  "(map_of (fst (fold (aggregate_step add) txs s)), snd (fold (aggregate_step add) txs s))
     = fold (map_step add) txs (map_of (fst s), snd s)"
  by (induction txs arbitrary: s) (simp_all add: aggregate_step_map_step)

lemma map_step_commute:
  assumes rc: "\<forall>a b c. add (add a b) c = add (add a c) b"
  shows "map_step add t (map_step add u s) = map_step add u (map_step add t s)"
  using rc by (cases s) (auto simp: map_step_def fun_upd_twist split: option.splits)

lemma fold_map_step_permuted:
  assumes rc: "\<forall>a b c. add (add a b) c = add (add a c) b" and "mset txs = mset txs'"
  shows "fold (map_step add) txs s = fold (map_step add) txs' s"
proof -
  have "map_step add t \<circ> map_step add u = map_step add u \<circ> map_step add t" for t u
    using map_step_commute [where add = add, OF rc] by (simp add: fun_eq_iff)
  then have "fold (map_step add) txs = fold (map_step add) txs'"
    using assms(2) by (intro fold_multiset_equiv) simp_all
  then show ?thesis by simp
qed

text \<open>
  Claim C6, amended. For every transaction list and every permutation of it, the
  aggregator produces the same \<open>total_debits\<close> and the same per-category totals (as a
  dictionary, whatever the insertion order) provided the addition is commutative and
  associative, as exact addition is.
\<close>

theorem aggregate_order_independent:
  assumes "mset txs = mset txs'"
    and "\<forall>a b. add a b = add b a"
    and "\<forall>a b c. add (add a b) c = add a (add b c)"
  shows "snd (aggregate_with add txs) = snd (aggregate_with add txs')
    \<and> map_of (fst (aggregate_with add txs)) = map_of (fst (aggregate_with add txs'))"
proof -
  have rc: "\<forall>a b c. add (add a b) c = add (add a c) b"
    using assms(2,3) by metis
  have "(map_of (fst (aggregate_with add txs)), snd (aggregate_with add txs))
      = (map_of (fst (aggregate_with add txs')), snd (aggregate_with add txs'))"
    unfolding aggregate_with_def fold_aggregate_map_step
    using rc assms(1) by (rule fold_map_step_permuted)
  then show ?thesis by simp
qed


section \<open>Rounding in the aggregation\<close>

lemma fadd_examples:
  "fadd 0 9007199254740992 = 9007199254740992"
  "fadd 9007199254740992 1 = 9007199254740992"
  "fadd 9007199254740992 2 = 9007199254740994"
  "fadd 0 1 = 1"
  "fadd 1 1 = 2"
  "fadd 2 9007199254740992 = 9007199254740994"
  by (simp_all add: float_eval)

lemma rounding_txs_aggregate:
  "aggregate_with fadd rounding_txs
     = ([(''rent'', 9007199254740992), (''food'', 2)], 9007199254740992)"
  by (simp add: aggregate_with_def rounding_txs_def mk_txn_def fadd_examples)

text \<open>
  Claim C5, as stated, fails under float addition. The amounts 9007199254740992.0, 1.0
  and 1.0, all with a category, give \<open>total_debits = 9007199254740992.0\<close> (adding 1.0
  to \<open>2^53\<close> rounds back to \<open>2^53\<close>), while the category totals
  9007199254740992.0 and 2.0 sum to 9007199254740994.0.
\<close>

theorem category_sum_not_total_example:
  "list_all has_category rounding_txs
   \<and> map amount rounding_txs = [9007199254740992, 1, 1]
   \<and> total_debits rounding_txs = 9007199254740992
   \<and> sum_values fadd (category_totals rounding_txs) = 9007199254740994
   \<and> sum_values fadd (category_totals rounding_txs) \<noteq> total_debits rounding_txs"
  by (simp add: total_debits_def category_totals_def rounding_txs_aggregate sum_values_def
      fadd_examples)
    (simp add: rounding_txs_def mk_txn_def has_category_def)

lemma mixed_txs_aggregate:
  "aggregate_with (+) mixed_txs = ([(''rent'', 14), (''food'', 5 / 2)], 33 / 2)"
  by (simp add: aggregate_with_def mixed_txs_def mk_txn_def)

lemma mixed_txs_permuted_aggregate:
  "aggregate_with (+) mixed_txs_permuted = ([(''food'', 5 / 2), (''rent'', 14)], 33 / 2)"
  by (simp add: aggregate_with_def mixed_txs_permuted_def mk_txn_def)

lemma mixed_txs_float:
  "aggregate_with fadd mixed_txs = ([(''rent'', 14), (''food'', 5 / 2)], 33 / 2)"
  "aggregate_with fadd (filter (\<lambda>t. amount t > 0) mixed_txs)
     = ([(''rent'', 14), (''food'', 5 / 2)], 33 / 2)"
  by (simp_all add: aggregate_with_def mixed_txs_def mk_txn_def float_eval)

theorem aggregator_totals_witness:
  "list_all has_category mixed_txs
   \<and> category_totals (filter (\<lambda>t. amount t > 0) mixed_txs) = [(''rent'', 14), (''food'', 5 / 2)]
   \<and> category_totals mixed_txs = [(''rent'', 14), (''food'', 5 / 2)]
   \<and> total_debits (filter (\<lambda>t. amount t > 0) mixed_txs) = 33 / 2
   \<and> total_debits mixed_txs = 33 / 2
   \<and> sum_values (+) (fst (aggregate_with (+) mixed_txs)) = 33 / 2
   \<and> snd (aggregate_with (+) mixed_txs) = 33 / 2"
proof -
  have h: "list_all has_category mixed_txs"
    by (simp add: mixed_txs_def mk_txn_def has_category_def)
  then have "\<forall>t \<in> set mixed_txs. amount t > 0 \<longrightarrow> has_category t"
    by (simp add: list_all_iff)
  with aggregator_totals [of mixed_txs] h show ?thesis
    by (simp add: mixed_txs_aggregate total_debits_def category_totals_def mixed_txs_float)
qed

lemma big_first_aggregate:
  "aggregate_with fadd big_first_txs = ([(''rent'', 9007199254740992)], 9007199254740992)"
  by (simp add: aggregate_with_def big_first_txs_def mk_txn_def fadd_examples)

lemma big_last_aggregate:
  "aggregate_with fadd big_last_txs = ([(''rent'', 9007199254740994)], 9007199254740994)"
  by (simp add: aggregate_with_def big_last_txs_def mk_txn_def fadd_examples)

text \<open>
  Claim C6, as stated, fails under float addition, which is not associative: the amounts
  9007199254740992.0, 1.0, 1.0 total 9007199254740992.0 in this order and
  9007199254740994.0 in the order 1.0, 1.0, 9007199254740992.0.
\<close>

theorem aggregate_order_dependent_example:
  "mset big_first_txs = mset big_last_txs
   \<and> total_debits big_first_txs = 9007199254740992
   \<and> total_debits big_last_txs = 9007199254740994
   \<and> category_totals big_first_txs = [(''rent'', 9007199254740992)]
   \<and> category_totals big_last_txs = [(''rent'', 9007199254740994)]
   \<and> total_debits big_first_txs \<noteq> total_debits big_last_txs"
  by (simp add: total_debits_def category_totals_def big_first_aggregate big_last_aggregate)
    (simp add: big_first_txs_def big_last_txs_def)

theorem aggregate_order_independent_witness:
  "mset mixed_txs = mset mixed_txs_permuted
   \<and> snd (aggregate_with (+) mixed_txs) = 33 / 2
   \<and> snd (aggregate_with (+) mixed_txs_permuted) = 33 / 2
   \<and> map_of (fst (aggregate_with (+) mixed_txs))
       = map_of (fst (aggregate_with (+) mixed_txs_permuted))"
proof -
  have h: "mset mixed_txs = mset mixed_txs_permuted"
    by (simp add: mixed_txs_def mixed_txs_permuted_def)
  have c: "\<forall>a b :: real. a + b = b + a" by (simp add: add.commute)
  have a: "\<forall>a b c :: real. (a + b) + c = a + (b + c)" by (simp add: add.assoc)
  from aggregate_order_independent [OF h c a] h show ?thesis
    by (simp add: mixed_txs_aggregate mixed_txs_permuted_aggregate)
qed

section \<open>Missing auto insurance\<close>

lemma round_half_even_nonneg: "0 \<le> q \<Longrightarrow> 0 \<le> round_half_even q"
  by (auto simp: round_half_even_def Let_def)

lemma float_round_nonneg: "0 \<le> q \<Longrightarrow> 0 \<le> float_round q"
  unfolding float_round_def Let_def
  by (auto intro!: mult_nonneg_nonneg round_half_even_nonneg divide_nonneg_pos
      simp: pow2_pos less_imp_le)

lemma emergency_deduction_nonneg: "0 \<le> emergency_deduction p"
proof -
  have "0 \<le> fmul (py_max0 x) 40" for x
    unfolding fmul_def by (rule float_round_nonneg) (simp add: py_max0_def)
  then show ?thesis
    by (simp add: emergency_deduction_def py_int_def)
qed

lemma missing_insurance_nonneg: "0 \<le> missing_insurance p"
  by (simp add: missing_insurance_def)

lemma cash_flow_deduction_nonneg: "0 \<le> cash_flow_deduction p"
  by (simp add: cash_flow_deduction_def)

lemma raw_score_le_100: "raw_score p \<le> 100"
  using emergency_deduction_nonneg [of p] missing_insurance_nonneg [of p]
    cash_flow_deduction_nonneg [of p]
  by (simp add: raw_score_def)

lemma total_debits_no_outflow:
  "\<forall>t \<in> set txs. amount t \<le> 0 \<Longrightarrow> total_debits txs = 0"
  by (simp add: total_debits_def aggregate_with_def fold_aggregate_no_outflow)

lemma emergency_alert_type:
  "a \<in> set (emergency_alerts p) \<Longrightarrow> alert_type a = ''emergency_fund_shortfall''"
  by (auto simp: emergency_alerts_def Let_def split: if_splits)

lemma insurance_alert_no_auto:
  "a \<in> set (insurance_alerts p 0) \<Longrightarrow> alert_type a \<noteq> ''missing_auto_insurance''"
  by (auto simp: insurance_alerts_def split: if_splits)

lemma overspending_alert_type:
  "a \<in> set (overspending_alerts p td) \<Longrightarrow> alert_type a = ''overspending''"
  by (auto simp: overspending_alerts_def split: if_splits)

lemma budget_alert_type:
  "a \<in> set (budget_alerts p cats) \<Longrightarrow> alert_type a = ''budget_exceeded''"
  by (auto simp: budget_alerts_def budget_alert_def Let_def split: option.splits if_splits)

lemma no_auto_alert:
  assumes "total_debits txs = 0"
  shows "''missing_auto_insurance'' \<notin> set (map alert_type (all_alerts p txs))"
proof
  assume "''missing_auto_insurance'' \<in> set (map alert_type (all_alerts p txs))"
  then obtain a where a: "a \<in> set (all_alerts p txs)"
    and ty: "alert_type a = ''missing_auto_insurance''"
    by auto
  from a consider "a \<in> set (emergency_alerts p)" | "a \<in> set (insurance_alerts p 0)"
    | "a \<in> set (overspending_alerts p 0)" | "a \<in> set (budget_alerts p (category_totals txs))"
    by (auto simp: all_alerts_def assms)
  then show False
  proof cases
    case 1
    from emergency_alert_type [OF this] ty show False by simp
  next
    case 2
    from insurance_alert_no_auto [OF this] ty show False by simp
  next
    case 3
    from overspending_alert_type [OF this] ty show False by simp
  next
    case 4
    from budget_alert_type [OF this] ty show False by simp
  qed
qed

lemma auto_flag_elsewhere:
  "emergency_deduction (p\<lparr>insurance_auto := b\<rparr>) = emergency_deduction p"
  "cash_flow_deduction (p\<lparr>insurance_auto := b\<rparr>) = cash_flow_deduction p"
  by (simp_all add: emergency_deduction_def cash_flow_deduction_def target_months_def
      burn_rate_months_def monthly_net_def)

text \<open>
  Claim C10. For a profile without auto insurance and transactions none of which has a
  positive amount, \<open>total_debits\<close> is 0 and the result holds no
  \<open>missing_auto_insurance\<close> alert; the insurance deduction still counts auto coverage
  as missing: one more missing coverage and 10 points less before the clamp than for the
  same profile with auto insurance, so the score is that profile's score less 10, not
  below 0.
\<close>

theorem auto_penalty_without_alert:
  assumes "\<not> insurance_auto p" and "\<forall>t \<in> set txs. amount t \<le> 0"
  shows "total_debits txs = 0
    \<and> ''missing_auto_insurance''
        \<notin> set (map alert_type (alerts (analyze_financial_protection p txs)))
    \<and> missing_insurance p = missing_insurance (p\<lparr>insurance_auto := True\<rparr>) + 1
    \<and> raw_score p = raw_score (p\<lparr>insurance_auto := True\<rparr>) - 10
    \<and> score (analyze_financial_protection p txs)
        = max 0 (score (analyze_financial_protection (p\<lparr>insurance_auto := True\<rparr>) txs) - 10)"
proof -
  let ?q = "p\<lparr>insurance_auto := True\<rparr>"
  have td: "total_debits txs = 0"
    using assms(2) by (rule total_debits_no_outflow)
  have al: "''missing_auto_insurance''
      \<notin> set (map alert_type (alerts (analyze_financial_protection p txs)))"
    using no_auto_alert [OF td, of p] by (simp add: analyze_financial_protection_def)
  have mi: "missing_insurance p = missing_insurance ?q + 1"
    using assms(1) by (simp add: missing_insurance_def)
  have rs: "raw_score p = raw_score ?q - 10"
    by (simp add: raw_score_def mi auto_flag_elsewhere)
  have "final_score p = max 0 (final_score ?q - 10)"
    using raw_score_le_100 [of ?q] by (simp add: final_score_def rs)
  then have sc: "score (analyze_financial_protection p txs)
      = max 0 (score (analyze_financial_protection ?q txs) - 10)"
    by (simp add: analyze_financial_protection_def)
  from td al mi rs sc show ?thesis by simp
qed

lemma A_with_auto_score: "final_score ((scenario_A e)\<lparr>insurance_auto := True\<rparr>) = 80"
  by (simp add: final_score_def raw_score_def auto_flag_elsewhere A_emergency_deduction
      A_cash_flow)
    (simp add: missing_insurance_def scenario_A_def)

theorem auto_penalty_without_alert_witness:
  "\<not> insurance_auto (scenario_A ''user@example.com'')
   \<and> map amount inflow_only_txs = [- 5000, 0]
   \<and> total_debits inflow_only_txs = 0
   \<and> ''missing_auto_insurance'' \<notin> set (map alert_type
        (alerts (analyze_financial_protection (scenario_A ''user@example.com'') inflow_only_txs)))
   \<and> missing_insurance (scenario_A ''user@example.com'') = 3
   \<and> missing_insurance ((scenario_A ''user@example.com'')\<lparr>insurance_auto := True\<rparr>) = 2
   \<and> score (analyze_financial_protection (scenario_A ''user@example.com'') inflow_only_txs) = 70
   \<and> score (analyze_financial_protection
        ((scenario_A ''user@example.com'')\<lparr>insurance_auto := True\<rparr>) inflow_only_txs) = 80"
proof -
  have h1: "\<not> insurance_auto (scenario_A ''user@example.com'')"
    by (simp add: scenario_A_def)
  have h2: "map amount inflow_only_txs = [- 5000, 0]"
    by (simp add: inflow_only_txs_def mk_txn_def)
  have h2': "\<forall>t \<in> set inflow_only_txs. amount t \<le> 0"
    by (simp add: inflow_only_txs_def mk_txn_def)
  have s: "score (analyze_financial_protection
        ((scenario_A ''user@example.com'')\<lparr>insurance_auto := True\<rparr>) inflow_only_txs) = 80"
    by (simp add: analyze_financial_protection_def A_with_auto_score)
  from auto_penalty_without_alert [OF h1 h2'] h1 h2 s show ?thesis
    by (simp add: A_missing_insurance)
qed

section \<open>Risk tolerance\<close>

lemma risk_tolerance_only_in_target:
  assumes "target_months q = target_months p" and "q = p\<lparr>risk_tolerance := r\<rparr>"
  shows "emergency_alerts q = emergency_alerts p"
    and "emergency_deduction q = emergency_deduction p"
    and "analyze_financial_protection q txs = analyze_financial_protection p txs"
proof -
  have tm: "target_months q = target_months p" by (rule assms)
  have br: "burn_rate_months q = burn_rate_months p"
    by (simp add: burn_rate_months_def assms(2))
  have net: "monthly_net q = monthly_net p"
    by (simp add: monthly_net_def assms(2))
  show ea: "emergency_alerts q = emergency_alerts p"
    by (simp add: emergency_alerts_def tm br Let_def) (simp add: assms(2))
  show ed: "emergency_deduction q = emergency_deduction p"
    by (simp add: emergency_deduction_def tm br)
  have mi: "missing_insurance q = missing_insurance p"
    by (simp add: missing_insurance_def assms(2))
  have cf: "cash_flow_deduction q = cash_flow_deduction p"
    by (simp add: cash_flow_deduction_def net) (simp add: assms(2))
  have fs: "final_score q = final_score p"
    by (simp add: final_score_def raw_score_def ed mi cf)
  have ia: "insurance_alerts q td = insurance_alerts p td" for td
    by (simp add: insurance_alerts_def assms(2))
  have oa: "overspending_alerts q td = overspending_alerts p td" for td
    by (simp add: overspending_alerts_def assms(2))
  have bb: "budget_alert q cats = budget_alert p cats" for cats
    by (rule ext) (simp add: budget_alert_def assms(2) Let_def)
  have ba: "budget_alerts q cats = budget_alerts p cats" for cats
    unfolding budget_alerts_def bb by (simp add: assms(2))
  have al: "all_alerts q txs = all_alerts p txs"
    by (simp only: all_alerts_def ea ia oa ba)
  have su: "make_summary q txs = make_summary p txs"
    by (simp only: make_summary_def fs net br tm al)
  have st: "make_stats q txs = make_stats p txs"
    by (simp add: make_stats_def net br) (simp add: assms(2))
  show "analyze_financial_protection q txs = analyze_financial_protection p txs"
    by (simp only: analyze_financial_protection_def fs su al st)
qed

lemma insurance_alert_types:
  "a \<in> set (insurance_alerts p td) \<Longrightarrow>
     alert_type a \<in> {''missing_health_insurance'', ''missing_renters_insurance'',
                      ''missing_auto_insurance'', ''missing_life_insurance''}"
  by (auto simp: insurance_alerts_def split: if_splits)

lemma shortfall_alert_only_from_emergency_rule:
  "(''emergency_fund_shortfall'' \<in> set (map alert_type (all_alerts p txs)))
     = (emergency_alerts p \<noteq> [])"
proof
  assume "''emergency_fund_shortfall'' \<in> set (map alert_type (all_alerts p txs))"
  then obtain a where a: "a \<in> set (all_alerts p txs)"
    and ty: "alert_type a = ''emergency_fund_shortfall''"
    by auto
  from a consider "a \<in> set (emergency_alerts p)"
    | "a \<in> set (insurance_alerts p (total_debits txs))"
    | "a \<in> set (overspending_alerts p (total_debits txs))"
    | "a \<in> set (budget_alerts p (category_totals txs))"
    by (auto simp: all_alerts_def)
  then show "emergency_alerts p \<noteq> []"
  proof cases
    case 1
    then show ?thesis by auto
  next
    case 2
    from insurance_alert_types [OF this] ty show ?thesis by simp
  next
    case 3
    from overspending_alert_type [OF this] ty show ?thesis by simp
  next
    case 4
    from budget_alert_type [OF this] ty show ?thesis by simp
  qed
next
  assume ne: "emergency_alerts p \<noteq> []"
  then obtain a where a: "a \<in> set (emergency_alerts p)"
    by (cases "emergency_alerts p") auto
  from emergency_alert_type [OF a] a
  show "''emergency_fund_shortfall'' \<in> set (map alert_type (all_alerts p txs))"
    by (force simp: all_alerts_def)
qed

text \<open>
  Claim C7. When the risk tolerance is none of \<open>low\<close>, \<open>medium\<close>, \<open>high\<close>, the
  target is 9 months, the value of \<open>low\<close>. The emergency-fund rule works with 9: it
  emits its alert exactly when the burn rate is below 9, with severity high below 4.5,
  the shortfall taken against 9 months of expenses and 9 as the target in the message
  and the data; the result holds an emergency-fund alert exactly then. The emergency-fund
  deduction is computed with 9, and so is the score of the result. Alert, deduction and
  the whole result are those of the same profile with risk tolerance \<open>low\<close>.
\<close>

theorem unrecognized_risk_tolerance_is_low:
  assumes "risk_tolerance p \<notin> {''low'', ''medium'', ''high''}"
  shows "target_months p = 9
    \<and> target_months (p\<lparr>risk_tolerance := ''low''\<rparr>) = 9
    \<and> emergency_alerts p =
        (if burn_rate_months p < 9 then
           [\<lparr>user_email = email p,
             alert_type = ''emergency_fund_shortfall'',
             severity = (if burn_rate_months p < fdiv 9 2 then ''high'' else ''medium''),
             message = ''Emergency fund covers '' @ fmt_fixed 1 (burn_rate_months p)
                       @ '' months; target is 9 months.'',
             data = [(''shortfall'',
                      JNum (py_round 2 (py_max0 (fsub (fmul 9 (monthly_expenses p))
                                                       (savings p))))),
                     (''target_months'', JInt 9)]\<rparr>]
         else [])
    \<and> (''emergency_fund_shortfall''
          \<in> set (map alert_type (alerts (analyze_financial_protection p txs))))
        = (burn_rate_months p < 9)
    \<and> emergency_deduction p
        = py_int (fmul (py_max0 (fdiv (fsub 9 (burn_rate_months p)) 9)) 40)
    \<and> score (analyze_financial_protection p txs)
        = max 0 (min 100
            (100 - py_int (fmul (py_max0 (fdiv (fsub 9 (burn_rate_months p)) 9)) 40)
                 - missing_insurance p * 10 - cash_flow_deduction p))
    \<and> emergency_alerts p = emergency_alerts (p\<lparr>risk_tolerance := ''low''\<rparr>)
    \<and> emergency_deduction p = emergency_deduction (p\<lparr>risk_tolerance := ''low''\<rparr>)
    \<and> analyze_financial_protection p txs
        = analyze_financial_protection (p\<lparr>risk_tolerance := ''low''\<rparr>) txs"
proof -
  let ?q = "p\<lparr>risk_tolerance := ''low''\<rparr>"
  have tp: "target_months p = 9"
    using assms by (simp add: target_months_def)
  have tq: "target_months ?q = 9"
    by (simp add: target_months_def)
  have eq: "target_months ?q = target_months p"
    by (simp only: tp tq)
  have nine: "str_int 9 = ''9''"
    by (simp add: str_int_def str_nat.simps digit_char_def)
  have ea: "emergency_alerts p =
        (if burn_rate_months p < 9 then
           [\<lparr>user_email = email p,
             alert_type = ''emergency_fund_shortfall'',
             severity = (if burn_rate_months p < fdiv 9 2 then ''high'' else ''medium''),
             message = ''Emergency fund covers '' @ fmt_fixed 1 (burn_rate_months p)
                       @ '' months; target is 9 months.'',
             data = [(''shortfall'',
                      JNum (py_round 2 (py_max0 (fsub (fmul 9 (monthly_expenses p))
                                                       (savings p))))),
                     (''target_months'', JInt 9)]\<rparr>]
         else [])"
    by (simp add: emergency_alerts_def tp nine Let_def)
  have ne: "(emergency_alerts p \<noteq> []) = (burn_rate_months p < 9)"
    by (simp add: ea)
  have al: "(''emergency_fund_shortfall''
          \<in> set (map alert_type (alerts (analyze_financial_protection p txs))))
        = (burn_rate_months p < 9)"
    using shortfall_alert_only_from_emergency_rule [of p txs] ne
    by (simp add: analyze_financial_protection_def)
  have ed: "emergency_deduction p
        = py_int (fmul (py_max0 (fdiv (fsub 9 (burn_rate_months p)) 9)) 40)"
    by (simp add: emergency_deduction_def tp)
  have sc: "score (analyze_financial_protection p txs)
        = max 0 (min 100
            (100 - py_int (fmul (py_max0 (fdiv (fsub 9 (burn_rate_months p)) 9)) 40)
                 - missing_insurance p * 10 - cash_flow_deduction p))"
    by (simp add: analyze_financial_protection_def final_score_def raw_score_def ed)
  from risk_tolerance_only_in_target [OF eq refl]
  have lo: "emergency_alerts p = emergency_alerts ?q"
    "emergency_deduction p = emergency_deduction ?q"
    "analyze_financial_protection p txs = analyze_financial_protection ?q txs"
    by simp_all
  from tp tq ea al ed sc lo show ?thesis
    by (intro conjI)
qed

lemma unknown_risk_values:
  "burn_rate_months unknown_risk_profile = 6"
  "fdiv 9 2 = 9 / 2"
  "py_int (fmul (py_max0 (fdiv (fsub 9 6) 9)) 40) = 13"
  "missing_insurance unknown_risk_profile = 3"
  "cash_flow_deduction unknown_risk_profile = 0"
  "fmt_fixed (Suc 0) 6 = ''6.0''"
  "py_round 2 (py_max0 (fsub (fmul 9 (monthly_expenses unknown_risk_profile))
                              (savings unknown_risk_profile))) = 12000"
proof -
  show "burn_rate_months unknown_risk_profile = 6"
    by (simp add: burn_rate_months_def unknown_risk_profile_def scenario_A_def float_eval)
  show "fdiv 9 2 = 9 / 2"
    by (simp add: float_eval)
  show "py_int (fmul (py_max0 (fdiv (fsub 9 6) 9)) 40) = 13"
    by (simp add: float_eval)
  show "missing_insurance unknown_risk_profile = 3"
    by (simp add: missing_insurance_def unknown_risk_profile_def scenario_A_def)
  have net: "monthly_net unknown_risk_profile = 1000"
    by (simp add: monthly_net_def unknown_risk_profile_def scenario_A_def float_eval)
  show "cash_flow_deduction unknown_risk_profile = 0"
    by (simp add: cash_flow_deduction_def net)
      (simp add: unknown_risk_profile_def scenario_A_def float_eval)
  show "fmt_fixed (Suc 0) 6 = ''6.0''"
    by (simp add: fmt_eval round_half_even_def Let_def)
  show "py_round 2 (py_max0 (fsub (fmul 9 (monthly_expenses unknown_risk_profile))
                              (savings unknown_risk_profile))) = 12000"
    by (simp add: unknown_risk_profile_def scenario_A_def float_eval)
qed

theorem unrecognized_risk_tolerance_is_low_witness:
  "risk_tolerance unknown_risk_profile \<notin> {''low'', ''medium'', ''high''}
   \<and> target_months unknown_risk_profile = 9
   \<and> emergency_alerts unknown_risk_profile =
        [\<lparr>user_email = ''user@example.com'',
          alert_type = ''emergency_fund_shortfall'',
          severity = ''medium'',
          message = ''Emergency fund covers 6.0 months; target is 9 months.'',
          data = [(''shortfall'', JNum 12000), (''target_months'', JInt 9)]\<rparr>]
   \<and> ''emergency_fund_shortfall''
        \<in> set (map alert_type (alerts (analyze_financial_protection unknown_risk_profile [])))
   \<and> emergency_deduction unknown_risk_profile = 13
   \<and> score (analyze_financial_protection unknown_risk_profile []) = 57
   \<and> analyze_financial_protection unknown_risk_profile []
       = analyze_financial_protection (unknown_risk_profile\<lparr>risk_tolerance := ''low''\<rparr>) []"
proof -
  have h: "risk_tolerance unknown_risk_profile \<notin> {''low'', ''medium'', ''high''}"
    by (simp add: unknown_risk_profile_def scenario_A_def)
  have e: "email unknown_risk_profile = ''user@example.com''"
    by (simp add: unknown_risk_profile_def scenario_A_def)
  note T = unrecognized_risk_tolerance_is_low [OF h, of "[]"]
  note c2 = conjunct2
  have tm: "target_months unknown_risk_profile = 9"
    by (rule T [THEN conjunct1])
  have ea: "emergency_alerts unknown_risk_profile =
        [\<lparr>user_email = ''user@example.com'',
          alert_type = ''emergency_fund_shortfall'',
          severity = ''medium'',
          message = ''Emergency fund covers 6.0 months; target is 9 months.'',
          data = [(''shortfall'', JNum 12000), (''target_months'', JInt 9)]\<rparr>]"
    using T [THEN c2, THEN c2, THEN conjunct1] by (simp add: unknown_risk_values e)
  have al: "''emergency_fund_shortfall''
        \<in> set (map alert_type (alerts (analyze_financial_protection unknown_risk_profile [])))"
    using T [THEN c2, THEN c2, THEN c2, THEN conjunct1] by (simp add: unknown_risk_values)
  have ed: "emergency_deduction unknown_risk_profile = 13"
    using T [THEN c2, THEN c2, THEN c2, THEN c2, THEN conjunct1]
    by (simp add: unknown_risk_values)
  have sc: "score (analyze_financial_protection unknown_risk_profile []) = 57"
    using T [THEN c2, THEN c2, THEN c2, THEN c2, THEN c2, THEN conjunct1]
    by (simp add: unknown_risk_values)
  have lo: "analyze_financial_protection unknown_risk_profile []
       = analyze_financial_protection (unknown_risk_profile\<lparr>risk_tolerance := ''low''\<rparr>) []"
    by (rule T [THEN c2, THEN c2, THEN c2, THEN c2, THEN c2, THEN c2, THEN c2, THEN c2])
  from h tm ea al ed sc lo show ?thesis
    by (intro conjI)
qed

end
